theory Spec2Isabelle
  imports Main "HOL-Library.Word" "HOL-Library.AList"
begin

section \<open>Data model of package usb (device.go, config.go)\<close>

text \<open>
  Go pointers to Device and Config objects are addresses into two object stores, each a
  list indexed by the address. An address beyond the end of its store stands for nil
  (or for a pointer that was never made); reading a field through it panics.
  Allocation appends to the store, so a new object never aliases an old one.
\<close>

type_synonym dref = nat
type_synonym cref = nat

text \<open>
  The native handle \<open>*libusbDevHandle\<close> is an opaque pointer: \<open>None\<close> is nil,
  \<open>Some h\<close> a live handle of the native library.
\<close>

type_synonym libusbDevHandle = nat

text \<open>
  InterfaceInfo, InterfaceSetting, Interface, Descriptor and Milliamperes are declared in other
  files of the package. The records below carry the fields of these structs that the two
  files read or write; InterfaceSetting is the type parameter \<open>'s\<close>, and Milliamperes,
  which is only stored, a natural number. ConfigInfo, Config and Device are declared in the
  two files and have all their fields but the mutexes.
\<close>

type_synonym Milliamperes = nat

record 's InterfaceInfo =
  AltSettings :: "'s list"

record 's ConfigInfo =
  Config :: int
  SelfPowered :: bool
  RemoteWakeup :: bool
  MaxPower :: Milliamperes
  Interfaces :: "'s InterfaceInfo list"

record 's Descriptor =
  Configs :: "'s ConfigInfo list"

text \<open>
  Config.claimed is a \<open>map[int]bool\<close>, here an association list: \<open>len\<close> is its
  length, \<open>m[k] = v\<close> is \<open>AList.update\<close>, and \<open>range\<close> visits the entries in the
  order of the list (Go leaves that order open; the theorems below speak of the set of keys
  only). The map is the one made by Device.Config, never nil. ControlTimeout is a
  \<open>time.Duration\<close>, an integer count of nanoseconds. The two mutexes are not fields of
  the model: every Lock and Unlock is recorded in the event log of the world instead.
  Device embeds \<open>*Descriptor\<close>; \<open>None\<close> is the nil pointer there, and so it is for
  \<open>handle\<close> and for \<open>claimed\<close> of Device. Go's \<open>int\<close> is \<open>int\<close> here: the
  two files compare and convert such values and never calculate with them.
\<close>

record 's Config =
  Info :: "'s ConfigInfo"
  ControlTimeout :: int
  dev :: dref
  claimed :: "(int \<times> bool) list"

record 's Device =
  handle :: "libusbDevHandle option"
  Descriptor :: "'s Descriptor option"
  claimed :: "cref option"

record 's Interface =
  Setting :: 's
  config :: cref

subsection \<open>The native layer and the event log\<close>

datatype mutex = DeviceMu dref | ConfigMu cref

datatype native_call =
    NClose "libusbDevHandle option"
  | NReset "libusbDevHandle option"
  | NControl "libusbDevHandle option" int "8 word" "8 word" "16 word" "16 word" "8 word list"
  | NGetConfig "libusbDevHandle option"
  | NSetConfig "libusbDevHandle option" "8 word"
  | NGetStringDesc "libusbDevHandle option" int
  | NSetAutoDetach "libusbDevHandle option" int
  | NClaim "libusbDevHandle option" "8 word"
  | NRelease "libusbDevHandle option" "8 word"
  | NSetAlt "libusbDevHandle option" "8 word" "8 word"

datatype event = Call native_call | Lock mutex | Unlock mutex

text \<open>
  The package variable \<open>libusb\<close> is implemented outside the two files, so it is a
  parameter: one function per native call, which sees the events so far and the arguments of
  the call and gives the call's result (\<open>None\<close> for a nil error). Native errors are the
  opaque type \<open>'e\<close>. \<open>libusb.close\<close> returns nothing and needs no function. The result
  type of \<open>libusb.release\<close> is the one of section 6 of the specification; the callers in
  these files use \<open>release\<close> as a statement.
\<close>

record 'e libusb =
  libusb_reset :: "event list \<Rightarrow> libusbDevHandle option \<Rightarrow> 'e option"
  libusb_control :: "event list \<Rightarrow> libusbDevHandle option \<Rightarrow> int \<Rightarrow> 8 word \<Rightarrow> 8 word \<Rightarrow>
    16 word \<Rightarrow> 16 word \<Rightarrow> 8 word list \<Rightarrow> int \<times> 'e option"
  libusb_getConfig :: "event list \<Rightarrow> libusbDevHandle option \<Rightarrow> 8 word \<times> 'e option"
  libusb_setConfig :: "event list \<Rightarrow> libusbDevHandle option \<Rightarrow> 8 word \<Rightarrow> 'e option"
  libusb_getStringDesc :: "event list \<Rightarrow> libusbDevHandle option \<Rightarrow> int \<Rightarrow> string \<times> 'e option"
  libusb_setAutoDetach :: "event list \<Rightarrow> libusbDevHandle option \<Rightarrow> int \<Rightarrow> 'e option"
  libusb_claim :: "event list \<Rightarrow> libusbDevHandle option \<Rightarrow> 8 word \<Rightarrow> 'e option"
  libusb_release :: "event list \<Rightarrow> libusbDevHandle option \<Rightarrow> 8 word \<Rightarrow> 'e option"
  libusb_setAlt :: "event list \<Rightarrow> libusbDevHandle option \<Rightarrow> 8 word \<Rightarrow> 8 word \<Rightarrow> 'e option"

text \<open>
  The two \<open>claimed\<close> fields are the ones the mutexes are declared for. A store to one of
  them is recorded with the event log as it stands at the moment of the store, so that the
  mutexes held at that moment can be read off.
\<close>

datatype guarded_store =
    StoreDeviceClaimed dref "cref option"
  | StoreConfigClaimed cref int bool

record 's world =
  devices :: "'s Device list"
  configs :: "'s Config list"
  events :: "event list"
  stores :: "(event list \<times> guarded_store) list"

definition deref :: "'a list \<Rightarrow> nat \<Rightarrow> 'a option" where
  "deref store p = (if p < length store then Some (store ! p) else None)"

definition emit :: "event \<Rightarrow> ('s, 'x) world_scheme \<Rightarrow> ('s, 'x) world_scheme" where
  "emit ev w = w\<lparr>events := events w @ [ev]\<rparr>"

definition record_store :: "guarded_store \<Rightarrow> ('s, 'x) world_scheme \<Rightarrow> ('s, 'x) world_scheme" where
  "record_store st w = w\<lparr>stores := stores w @ [(events w, st)]\<rparr>"

subsection \<open>Errors and outcomes\<close>

text \<open>
  One constructor per \<open>fmt.Errorf\<close> call of the two files, carrying the arguments of
  the format in their order, and one for a native error handed on as it is.
\<close>

datatype ('e, 's) error =
    NativeError 'e
  | ResetOpenConfig
  | ConfigNotFound cref dref
  | SetConfigFailed int dref 'e
  | DoubleClose dref
  | DeviceHasOpenConfig dref int
  | InterfacesStillOpen cref "int list"
  | InterfaceNotFound int cref nat
  | AltSettingNotFound "'s InterfaceInfo" int nat
  | ClaimFailed int cref 'e
  | SetAltFailed int int cref 'e

text \<open>A call either panics on a nil pointer or returns.\<close>

datatype 'a outcome = Panics | Returns 'a

section \<open>Device (device.go)\<close>

definition Device_Reset ::
  "'e libusb \<Rightarrow> dref \<Rightarrow> 's world \<Rightarrow> ('e, 's) error option outcome \<times> 's world" where
  "Device_Reset L d w =
    (case deref (devices w) d of
       None \<Rightarrow> (Panics, w)
     | Some dv \<Rightarrow>
        let w1 = emit (Lock (DeviceMu d)) w in
        if Device.claimed dv \<noteq> None then
          (Returns (Some ResetOpenConfig), emit (Unlock (DeviceMu d)) w1)
        else
          let r = libusb_reset L (events w1) (handle dv);
              w2 = emit (Call (NReset (handle dv))) w1
          in (Returns (map_option NativeError r), emit (Unlock (DeviceMu d)) w2))"

text \<open>ActiveConfig takes no lock and reads only the handle.\<close>

definition Device_ActiveConfig ::
  "'e libusb \<Rightarrow> dref \<Rightarrow> 's world \<Rightarrow> (int \<times> 'e option) outcome \<times> 's world" where
  "Device_ActiveConfig L d w =
    (case deref (devices w) d of
       None \<Rightarrow> (Panics, w)
     | Some dv \<Rightarrow>
        let (ret, err) = libusb_getConfig L (events w) (handle dv);
            w1 = emit (Call (NGetConfig (handle dv))) w
        in (Returns (uint ret, err), w1))"

text \<open>
  The loop of Device.Config over \<open>d.Descriptor.Configs\<close>: the state is the pair of
  \<open>found\<close> and \<open>cfg.Info\<close>, and \<open>break\<close> leaves at the first match.
\<close>

fun scan_configs ::
  "'s ConfigInfo list \<Rightarrow> int \<Rightarrow> bool \<times> 's ConfigInfo \<Rightarrow> bool \<times> 's ConfigInfo" where
  "scan_configs [] cfgNum st = st"
| "scan_configs (info # rest) cfgNum st =
    (if Config info = cfgNum then (True, info) else scan_configs rest cfgNum st)"

text \<open>The zero value of ConfigInfo, which \<open>cfg.Info\<close> holds until the loop assigns it.\<close>

definition zero_ConfigInfo :: "'s ConfigInfo" where
  "zero_ConfigInfo =
    \<lparr>Config = 0, SelfPowered = False, RemoteWakeup = False, MaxPower = 0, Interfaces = []\<rparr>"

definition new_Config :: "dref \<Rightarrow> 's Config" where
  "new_Config d = \<lparr>Info = zero_ConfigInfo, ControlTimeout = 0, dev = d, claimed = []\<rparr>"

text \<open>
  \<open>cfg := &Config{...}\<close> allocates before anything is checked, so the new object is
  in the store on every returning path; on the failing paths nothing refers to it.
  \<open>uint8(cfgNum)\<close> keeps the low eight bits.
\<close>

definition Device_Config ::
  "'e libusb \<Rightarrow> dref \<Rightarrow> int \<Rightarrow> 's world \<Rightarrow> (('e, 's) error + cref) outcome \<times> 's world" where
  "Device_Config L d cfgNum w =
    (case deref (devices w) d of
       None \<Rightarrow> (Panics, w)
     | Some dv \<Rightarrow>
        (let cfg = length (configs w);
             w0 = w\<lparr>configs := configs w @ [new_Config d]\<rparr>
         in (case Descriptor dv of
               None \<Rightarrow> (Panics, w0)
             | Some desc \<Rightarrow>
                (let (found, info) = scan_configs (Configs desc) cfgNum (False, zero_ConfigInfo);
                     w1 = w0\<lparr>configs := list_update (configs w0) cfg ((new_Config d)\<lparr>Info := info\<rparr>)\<rparr>
                 in if \<not> found then (Returns (Inl (ConfigNotFound cfg d)), w1)
                    else
                      (let r = libusb_setConfig L (events w1) (handle dv) (word_of_int cfgNum);
                           w2 = emit (Call (NSetConfig (handle dv) (word_of_int cfgNum))) w1
                       in (case r of
                             Some err \<Rightarrow> (Returns (Inl (SetConfigFailed cfgNum d err)), w2)
                           | None \<Rightarrow>
                              (let w3 = emit (Lock (DeviceMu d)) w2;
                                   w4 = record_store (StoreDeviceClaimed d (Some cfg))
                                          (w3\<lparr>devices := list_update (devices w3) d
                                             (dv\<lparr>Device.claimed := Some cfg\<rparr>)\<rparr>);
                                   w5 = emit (Unlock (DeviceMu d)) w4
                               in (Returns (Inr cfg), w5))))))))"

text \<open>
  Device.Close tests the handle before it locks. The busy message reads
  \<open>d.claimed.Info.Config\<close>, so the claimed Config is dereferenced there.
\<close>

definition Device_Close ::
  "'e libusb \<Rightarrow> dref \<Rightarrow> 's world \<Rightarrow> ('e, 's) error option outcome \<times> 's world" where
  "Device_Close L d w =
    (case deref (devices w) d of
       None \<Rightarrow> (Panics, w)
     | Some dv \<Rightarrow>
        if handle dv = None then (Returns (Some (DoubleClose d)), w)
        else
          (let w1 = emit (Lock (DeviceMu d)) w
           in (case Device.claimed dv of
                 Some c \<Rightarrow>
                   (case deref (configs w1) c of
                      None \<Rightarrow> (Panics, emit (Unlock (DeviceMu d)) w1)
                    | Some cf \<Rightarrow>
                       (Returns (Some (DeviceHasOpenConfig d (Config (Info cf)))),
                        emit (Unlock (DeviceMu d)) w1))
               | None \<Rightarrow>
                   (let w2 = emit (Call (NClose (handle dv))) w1;
                        w3 = w2\<lparr>devices := list_update (devices w2) d (dv\<lparr>handle := None\<rparr>)\<rparr>
                    in (Returns None, emit (Unlock (DeviceMu d)) w3)))))"

definition Device_GetStringDescriptor ::
  "'e libusb \<Rightarrow> dref \<Rightarrow> int \<Rightarrow> 's world \<Rightarrow> (string \<times> 'e option) outcome \<times> 's world" where
  "Device_GetStringDescriptor L d descIndex w =
    (case deref (devices w) d of
       None \<Rightarrow> (Panics, w)
     | Some dv \<Rightarrow>
        (Returns (libusb_getStringDesc L (events w) (handle dv) descIndex),
         emit (Call (NGetStringDesc (handle dv) descIndex)) w))"

definition Device_SetAutoDetach ::
  "'e libusb \<Rightarrow> dref \<Rightarrow> bool \<Rightarrow> 's world \<Rightarrow> 'e option outcome \<times> 's world" where
  "Device_SetAutoDetach L d autodetach w =
    (let autodetachInt = (case autodetach of True \<Rightarrow> 1 | False \<Rightarrow> 0)
     in case deref (devices w) d of
          None \<Rightarrow> (Panics, w)
        | Some dv \<Rightarrow>
           (Returns (libusb_setAutoDetach L (events w) (handle dv) autodetachInt),
            emit (Call (NSetAutoDetach (handle dv) autodetachInt)) w))"

section \<open>Config (config.go)\<close>

text \<open>The loop of Config.Close that collects the keys of \<open>c.claimed\<close> into \<open>ifs\<close>.\<close>

fun collect_keys :: "(int \<times> bool) list \<Rightarrow> int list \<Rightarrow> int list" where
  "collect_keys [] ifs = ifs"
| "collect_keys ((k, v) # rest) ifs = collect_keys rest (ifs @ [k])"

text \<open>
  Config.Close reaches \<open>c.dev\<close> only after the test of \<open>len(c.claimed)\<close>. The
  deferred unlocks run in reverse order at the return.
\<close>

definition Config_Close ::
  "cref \<Rightarrow> 's world \<Rightarrow> ('e, 's) error option outcome \<times> 's world" where
  "Config_Close c w =
    (case deref (configs w) c of
       None \<Rightarrow> (Panics, w)
     | Some cf \<Rightarrow>
        (let w1 = emit (Lock (ConfigMu c)) w
         in if length (Config.claimed cf) > 0 then
              (let ifs = collect_keys (Config.claimed cf) []
               in (Returns (Some (InterfacesStillOpen c ifs)), emit (Unlock (ConfigMu c)) w1))
            else
              (case deref (devices w1) (dev cf) of
                 None \<Rightarrow> (Panics, emit (Unlock (ConfigMu c)) w1)
               | Some dv \<Rightarrow>
                  (let w2 = emit (Lock (DeviceMu (dev cf))) w1;
                       w3 = record_store (StoreDeviceClaimed (dev cf) None)
                              (w2\<lparr>devices := list_update (devices w2) (dev cf)
                                 (dv\<lparr>Device.claimed := None\<rparr>)\<rparr>);
                       w4 = emit (Unlock (DeviceMu (dev cf))) w3
                   in (Returns None, emit (Unlock (ConfigMu c)) w4)))))"

definition Config_Control ::
  "'e libusb \<Rightarrow> cref \<Rightarrow> 8 word \<Rightarrow> 8 word \<Rightarrow> 16 word \<Rightarrow> 16 word \<Rightarrow> 8 word list \<Rightarrow> 's world \<Rightarrow>
   (int \<times> 'e option) outcome \<times> 's world" where
  "Config_Control L c rType request val idx data w =
    (case deref (configs w) c of
       None \<Rightarrow> (Panics, w)
     | Some cf \<Rightarrow>
        (case deref (devices w) (dev cf) of
           None \<Rightarrow> (Panics, w)
         | Some dv \<Rightarrow>
            (Returns (libusb_control L (events w) (handle dv) (ControlTimeout cf)
                        rType request val idx data),
             emit (Call (NControl (handle dv) (ControlTimeout cf) rType request val idx data)) w)))"

text \<open>
  Config.Interface: the two range checks come before \<open>c.dev\<close> is read; the result of
  \<open>libusb.release\<close> on the rollback path is dropped, as the source calls it as a statement.
\<close>

definition Config_Interface ::
  "'e libusb \<Rightarrow> cref \<Rightarrow> int \<Rightarrow> int \<Rightarrow> 's world \<Rightarrow>
   (('e, 's) error + 's Interface) outcome \<times> 's world" where
  "Config_Interface L c intf alt w =
    (case deref (configs w) c of
       None \<Rightarrow> (Panics, w)
     | Some cf \<Rightarrow>
        if intf < 0 \<or> intf \<ge> int (length (Interfaces (Info cf))) then
          (Returns (Inl (InterfaceNotFound intf c (length (Interfaces (Info cf))))), w)
        else
          (let ifInfo = Interfaces (Info cf) ! nat intf
           in if alt < 0 \<or> alt \<ge> int (length (AltSettings ifInfo)) then
                (Returns (Inl (AltSettingNotFound ifInfo alt (length (AltSettings ifInfo)))), w)
              else
                (case deref (devices w) (dev cf) of
                   None \<Rightarrow> (Panics, w)
                 | Some dv \<Rightarrow>
                    (let r1 = libusb_claim L (events w) (handle dv) (word_of_int intf);
                         w1 = emit (Call (NClaim (handle dv) (word_of_int intf))) w
                     in (case r1 of
                           Some err \<Rightarrow> (Returns (Inl (ClaimFailed intf c err)), w1)
                         | None \<Rightarrow>
                            (let r2 = libusb_setAlt L (events w1) (handle dv)
                                        (word_of_int intf) (word_of_int alt);
                                 w2 = emit (Call (NSetAlt (handle dv) (word_of_int intf)
                                        (word_of_int alt))) w1
                             in (case r2 of
                                   Some err \<Rightarrow>
                                    (let dropped = libusb_release L (events w2) (handle dv)
                                                     (word_of_int intf);
                                         w3 = emit (Call (NRelease (handle dv) (word_of_int intf))) w2
                                     in (Returns (Inl (SetAltFailed alt intf c err)), w3))
                                 | None \<Rightarrow>
                                    (let w3 = emit (Lock (ConfigMu c)) w2;
                                         w4 = record_store (StoreConfigClaimed c intf True)
                                                (w3\<lparr>configs := list_update (configs w3) c
                                                   (cf\<lparr>Config.claimed :=
                                                     AList.update intf True (Config.claimed cf)\<rparr>)\<rparr>);
                                         w5 = emit (Unlock (ConfigMu c)) w4
                                     in (Returns (Inr \<lparr>Setting = AltSettings ifInfo ! nat alt,
                                                        config = c\<rparr>), w5)))))))))"

section \<open>Auxiliary notions for the properties\<close>

text \<open>The native calls of an event log, in order.\<close>

fun native_calls :: "event list \<Rightarrow> native_call list" where
  "native_calls [] = []"
| "native_calls (Call nc # es) = nc # native_calls es"
| "native_calls (Lock m # es) = native_calls es"
| "native_calls (Unlock m # es) = native_calls es"

text \<open>The set of claimed interface numbers of a Config: the keys of \<open>c.claimed\<close>.\<close>

definition claimedInterfaces :: "'s Config \<Rightarrow> int set" where
  "claimedInterfaces cf = fst ` set (Config.claimed cf)"

subsection \<open>Lock events\<close>

text \<open>
  Each operation is run alone from its call to its return, so a Lock never waits; the order
  in which an operation takes and gives back the mutexes is read off the events it appends.
  \<open>lock_order_ok held es\<close> says that along \<open>es\<close>, started with the mutexes \<open>held\<close>,
  no config mutex is locked while a device mutex is held; \<open>max_held held es\<close> is the
  largest number of mutexes held at one time.
\<close>

primrec is_DeviceMu :: "mutex \<Rightarrow> bool" where
  "is_DeviceMu (DeviceMu d) = True"
| "is_DeviceMu (ConfigMu c) = False"

fun lock_order_ok :: "mutex list \<Rightarrow> event list \<Rightarrow> bool" where
  "lock_order_ok held [] = True"
| "lock_order_ok held (Lock (ConfigMu c) # es) =
     (list_all (\<lambda>m. \<not> is_DeviceMu m) held \<and> lock_order_ok (ConfigMu c # held) es)"
| "lock_order_ok held (Lock (DeviceMu d) # es) = lock_order_ok (DeviceMu d # held) es"
| "lock_order_ok held (Unlock m # es) = lock_order_ok (remove1 m held) es"
| "lock_order_ok held (Call nc # es) = lock_order_ok held es"

fun max_held :: "mutex list \<Rightarrow> event list \<Rightarrow> nat" where
  "max_held held [] = length held"
| "max_held held (Lock m # es) = max_held (m # held) es"
| "max_held held (Unlock m # es) = max (length held) (max_held (remove1 m held) es)"
| "max_held held (Call nc # es) = max_held held es"

text \<open>The mutexes held after the events \<open>es\<close>, started with the mutexes \<open>held\<close>.\<close>

fun held_after :: "mutex list \<Rightarrow> event list \<Rightarrow> mutex list" where
  "held_after held [] = held"
| "held_after held (Lock m # es) = held_after (m # held) es"
| "held_after held (Unlock m # es) = held_after (remove1 m held) es"
| "held_after held (Call nc # es) = held_after held es"

subsection \<open>Claims held at the native layer\<close>

text \<open>
  Modelled from the spec: the native layer's own record of which interfaces are claimed is not
  in the two files. By the specification a claim is a reservation of an interface that is
  established by a successful claimInterface and stands until it is released. So a claim call
  that returns no error adds the interface of that handle, a release call that returns no
  error removes it, and a call that returns an error changes nothing. \<open>native_held L es\<close>
  replays the log \<open>es\<close> against the native layer \<open>L\<close>.
\<close>

fun held_step ::
  "'e libusb \<Rightarrow> event list \<Rightarrow> event \<Rightarrow> (libusbDevHandle option \<times> 8 word) list \<Rightarrow>
   (libusbDevHandle option \<times> 8 word) list" where
  "held_step L before (Call (NClaim h i)) held =
     (if libusb_claim L before h i = None then List.insert (h, i) held else held)"
| "held_step L before (Call (NRelease h i)) held =
     (if libusb_release L before h i = None then removeAll (h, i) held else held)"
| "held_step L before ev held = held"

fun replay_held ::
  "'e libusb \<Rightarrow> event list \<Rightarrow> event list \<Rightarrow> (libusbDevHandle option \<times> 8 word) list \<Rightarrow>
   (libusbDevHandle option \<times> 8 word) list" where
  "replay_held L before [] held = held"
| "replay_held L before (ev # es) held =
     replay_held L (before @ [ev]) es (held_step L before ev held)"

definition native_held :: "'e libusb \<Rightarrow> event list \<Rightarrow> (libusbDevHandle option \<times> 8 word) list" where
  "native_held L es = replay_held L [] es []"

text \<open>The methods of Device and Config in the two files, and the world each leaves.\<close>

datatype operation =
    OpReset dref
  | OpActiveConfig dref
  | OpConfig dref int
  | OpDeviceClose dref
  | OpGetStringDescriptor dref int
  | OpSetAutoDetach dref bool
  | OpConfigClose cref
  | OpControl cref "8 word" "8 word" "16 word" "16 word" "8 word list"
  | OpInterface cref int int

fun run :: "'e libusb \<Rightarrow> operation \<Rightarrow> 's world \<Rightarrow> 's world" where
  "run L (OpReset d) w = snd (Device_Reset L d w)"
| "run L (OpActiveConfig d) w = snd (Device_ActiveConfig L d w)"
| "run L (OpConfig d cfgNum) w = snd (Device_Config L d cfgNum w)"
| "run L (OpDeviceClose d) w = snd (Device_Close L d w)"
| "run L (OpGetStringDescriptor d descIndex) w = snd (Device_GetStringDescriptor L d descIndex w)"
| "run L (OpSetAutoDetach d autodetach) w = snd (Device_SetAutoDetach L d autodetach w)"
| "run L (OpConfigClose c) w =
     snd (Config_Close c w :: ('e, 's) error option outcome \<times> 's world)"
| "run L (OpControl c rType request val idx data) w =
     snd (Config_Control L c rType request val idx data w)"
| "run L (OpInterface c intf alt) w = snd (Config_Interface L c intf alt w)"

text \<open>The events an operation appends to the log.\<close>

definition emitted :: "'e libusb \<Rightarrow> operation \<Rightarrow> 's world \<Rightarrow> event list" where
  "emitted L op w = drop (length (events w)) (events (run L op w))"

subsection \<open>A concrete device\<close>

text \<open>
  A device with the configurations 1 and 2; configuration 2 has three interfaces, the first
  with two alternate settings. Settings are numbered by naturals, native errors too.
\<close>

definition example_info :: "nat ConfigInfo" where
  "example_info =
    \<lparr>Config = 2, SelfPowered = True, RemoteWakeup = False, MaxPower = 100,
     Interfaces = [\<lparr>AltSettings = [10, 11]\<rparr>, \<lparr>AltSettings = [20]\<rparr>, \<lparr>AltSettings = [30]\<rparr>]\<rparr>"

definition example_descriptor :: "nat Descriptor" where
  "example_descriptor =
    \<lparr>Configs = [\<lparr>Config = 1, SelfPowered = False, RemoteWakeup = False, MaxPower = 50,
                 Interfaces = [\<lparr>AltSettings = [1]\<rparr>]\<rparr>, example_info]\<rparr>"

definition example_device :: "nat Device" where
  "example_device = \<lparr>handle = Some 7, Descriptor = Some example_descriptor, claimed = None\<rparr>"

definition example_config :: "nat Config" where
  "example_config = \<lparr>Info = example_info, ControlTimeout = 0, dev = 0, claimed = []\<rparr>"

text \<open>The device just opened; with configuration 2 selected; with interfaces 0 and 2
  claimed.\<close>

definition world_open :: "nat world" where
  "world_open = \<lparr>devices = [example_device], configs = [], events = [], stores = []\<rparr>"

definition world_configured :: "nat world" where
  "world_configured =
    \<lparr>devices = [example_device\<lparr>Device.claimed := Some 0\<rparr>], configs = [example_config],
     events = [], stores = []\<rparr>"

definition world_claimed :: "nat world" where
  "world_claimed =
    \<lparr>devices = [example_device\<lparr>Device.claimed := Some 0\<rparr>],
     configs = [example_config\<lparr>Config.claimed := [(0, True), (2, True)]\<rparr>],
     events = [], stores = []\<rparr>"

text \<open>A native layer where every call succeeds, one where setAlt fails, and one where
  setConfig, setAlt and release fail.\<close>

definition libusb_ok :: "nat libusb" where
  "libusb_ok =
    \<lparr>libusb_reset = (\<lambda>es h. None),
     libusb_control = (\<lambda>es h t rt rq v i data. (int (length data), None)),
     libusb_getConfig = (\<lambda>es h. (2, None)),
     libusb_setConfig = (\<lambda>es h n. None),
     libusb_getStringDesc = (\<lambda>es h i. (''usb'', None)),
     libusb_setAutoDetach = (\<lambda>es h i. None),
     libusb_claim = (\<lambda>es h i. None),
     libusb_release = (\<lambda>es h i. None),
     libusb_setAlt = (\<lambda>es h i a. None)\<rparr>"

definition libusb_bad_alt :: "nat libusb" where
  "libusb_bad_alt = libusb_ok\<lparr>libusb_setAlt := (\<lambda>es h i a. Some 5)\<rparr>"

definition libusb_failing :: "nat libusb" where
  "libusb_failing =
    libusb_ok\<lparr>libusb_setConfig := (\<lambda>es h n. Some 3),
               libusb_setAlt := (\<lambda>es h i a. Some 5),
               libusb_release := (\<lambda>es h i. Some 9)\<rparr>"

section \<open>Basic facts\<close>

lemma native_calls_append: "native_calls (xs @ ys) = native_calls xs @ native_calls ys"
  by (induction xs rule: native_calls.induct) simp_all

lemma emit_simps:
  "events (emit ev w) = events w @ [ev]"
  "devices (emit ev w) = devices w"
  "configs (emit ev w) = configs w"
  "stores (emit ev w) = stores w"
  "events (record_store st w) = events w"
  "devices (record_store st w) = devices w"
  "configs (record_store st w) = configs w"
  "stores (record_store st w) = stores w @ [(events w, st)]"
  by (simp_all add: emit_def record_store_def)

lemma replay_held_snoc:
  "replay_held L before (es @ [ev]) held =
     held_step L (before @ es) ev (replay_held L before es held)"
  by (induction es arbitrary: before held) simp_all

lemma native_held_snoc:
  "native_held L (es @ [ev]) = held_step L es ev (native_held L es)"
  using replay_held_snoc [of L "[]" es ev "[]"] by (simp add: native_held_def)

lemma native_held_snoc3:
  "native_held L (es @ [a, b, c]) =
     held_step L (es @ [a, b]) c (held_step L (es @ [a]) b (held_step L es a (native_held L es)))"
  using native_held_snoc [of L "es @ [a, b]" c] native_held_snoc [of L "es @ [a]" b]
    native_held_snoc [of L es a]
  by simp

lemma collect_keys_eq: "collect_keys m ifs = ifs @ map fst m"
  by (induction m ifs rule: collect_keys.induct) simp_all

lemma scan_configs_find:
  "scan_configs xs n (False, z) =
     (case find (\<lambda>info. Config info = n) xs of None \<Rightarrow> (False, z) | Some info \<Rightarrow> (True, info))"
  by (induction xs) simp_all

lemmas example_defs = example_info_def example_descriptor_def example_device_def
  example_config_def world_open_def world_configured_def world_claimed_def
  libusb_ok_def libusb_bad_alt_def libusb_failing_def

section \<open>Device.Reset\<close>

text \<open>
  Claim C7. Device.Reset fails with the busy error when a Config is claimed
  (\<open>claimed \<noteq> nil\<close>) and makes no native call then; otherwise it calls the native reset
  once, on the device's handle, and returns what that call returns. The stores are unchanged
  either way.
\<close>

theorem Device_Reset_spec:
  assumes "deref (devices w) d = Some dv"
  shows "(case Device_Reset L d w of (res, w') \<Rightarrow>
           devices w' = devices w \<and> configs w' = configs w \<and>
           (if Device.claimed dv \<noteq> None
            then res = Returns (Some ResetOpenConfig) \<and>
                 native_calls (events w') = native_calls (events w)
            else res = Returns (map_option NativeError
                         (libusb_reset L (events w @ [Lock (DeviceMu d)]) (handle dv))) \<and>
                 native_calls (events w') = native_calls (events w) @ [NReset (handle dv)]))"
  using assms by (simp add: Device_Reset_def Let_def emit_simps native_calls_append)

theorem Device_Reset_spec_witness:
  "deref (devices world_configured) 0 = Some (example_device\<lparr>Device.claimed := Some 0\<rparr>) \<and>
   fst (Device_Reset libusb_ok 0 world_configured) = Returns (Some ResetOpenConfig) \<and>
   native_calls (events (snd (Device_Reset libusb_ok 0 world_configured))) = []"
  using Device_Reset_spec
      [where w = world_configured and d = 0
         and dv = "example_device\<lparr>Device.claimed := Some 0\<rparr>" and L = libusb_ok]
  by (simp add: deref_def world_configured_def example_device_def split: prod.splits)

section \<open>Device.ActiveConfig\<close>

text \<open>
  Claim C8. Device.ActiveConfig returns the configuration number and the error that the native
  getConfiguration call reports. It changes no Device and no Config, its only event is that
  native call, and its result is the same whatever the device's claimed field holds.
\<close>

theorem Device_ActiveConfig_spec:
  assumes "deref (devices w) d = Some dv"
  shows "(case Device_ActiveConfig L d w of (res, w') \<Rightarrow>
           res = Returns (uint (fst (libusb_getConfig L (events w) (handle dv))),
                          snd (libusb_getConfig L (events w) (handle dv))) \<and>
           devices w' = devices w \<and> configs w' = configs w \<and>
           events w' = events w @ [Call (NGetConfig (handle dv))] \<and>
           (\<forall>x. fst (Device_ActiveConfig L d
                  (w\<lparr>devices := list_update (devices w) d (dv\<lparr>Device.claimed := x\<rparr>)\<rparr>)) = res))"
  using assms
  by (auto simp add: Device_ActiveConfig_def Let_def emit_simps deref_def
      split: prod.splits if_splits)

theorem Device_ActiveConfig_spec_witness:
  "deref (devices world_open) 0 = Some example_device \<and>
   fst (Device_ActiveConfig libusb_ok 0 world_open) = Returns (2, None) \<and>
   devices (snd (Device_ActiveConfig libusb_ok 0 world_open)) = devices world_open"
  using Device_ActiveConfig_spec
      [where w = world_open and d = 0 and dv = example_device and L = libusb_ok]
  by (simp add: deref_def world_open_def example_device_def libusb_ok_def split: prod.splits)

section \<open>Device.Config\<close>

text \<open>
  Claim C4. Device.Config looks \<open>cfgNum\<close> up among the configuration numbers of the
  descriptor (the first entry whose number is \<open>cfgNum\<close>, whatever its index) and returns
  the not-found error, with no native call, when there is none. When there is one it calls
  the native setConfiguration; if that fails it returns the failure with the native error and
  leaves every Device as it was, with no store to a claimed field. If it succeeds it records
  the new Config as the device's claimed one, whatever was claimed before, and returns it;
  that store is made after the Lock of the device mutex and before its Unlock, so with the
  device mutex held.
\<close>

theorem Device_Config_spec:
  assumes "deref (devices w) d = Some dv" and "Descriptor dv = Some desc"
  shows "(case Device_Config L d cfgNum w of (res, w') \<Rightarrow>
          (case find (\<lambda>info. Config info = cfgNum) (Configs desc) of
             None \<Rightarrow>
               res = Returns (Inl (ConfigNotFound (length (configs w)) d)) \<and>
               devices w' = devices w \<and> events w' = events w \<and> stores w' = stores w
           | Some info \<Rightarrow>
              (case libusb_setConfig L (events w) (handle dv) (word_of_int cfgNum) of
                 Some err \<Rightarrow>
                   res = Returns (Inl (SetConfigFailed cfgNum d err)) \<and>
                   devices w' = devices w \<and> stores w' = stores w \<and>
                   events w' = events w @ [Call (NSetConfig (handle dv) (word_of_int cfgNum))]
               | None \<Rightarrow>
                   res = Returns (Inr (length (configs w))) \<and>
                   deref (configs w') (length (configs w)) =
                     Some \<lparr>Info = info, ControlTimeout = 0, dev = d, claimed = []\<rparr> \<and>
                   devices w' = list_update (devices w) d
                     (dv\<lparr>Device.claimed := Some (length (configs w))\<rparr>) \<and>
                   events w' = events w @
                     [Call (NSetConfig (handle dv) (word_of_int cfgNum)),
                      Lock (DeviceMu d), Unlock (DeviceMu d)] \<and>
                   stores w' = stores w @
                     [(events w @ [Call (NSetConfig (handle dv) (word_of_int cfgNum)),
                                   Lock (DeviceMu d)],
                       StoreDeviceClaimed d (Some (length (configs w))))] \<and>
                   held_after []
                     [Call (NSetConfig (handle dv) (word_of_int cfgNum)), Lock (DeviceMu d)] =
                     [DeviceMu d])))"
  using assms
  by (simp add: Device_Config_def Let_def emit_simps scan_configs_find deref_def new_Config_def
      split: option.splits)

theorem Device_Config_spec_witness:
  "deref (devices world_configured) 0 = Some (example_device\<lparr>Device.claimed := Some 0\<rparr>) \<and>
   Descriptor (example_device\<lparr>Device.claimed := Some 0\<rparr>) = Some example_descriptor \<and>
   fst (Device_Config libusb_ok 0 3 world_configured) = Returns (Inl (ConfigNotFound 1 0)) \<and>
   fst (Device_Config libusb_failing 0 2 world_configured) = Returns (Inl (SetConfigFailed 2 0 3)) \<and>
   devices (snd (Device_Config libusb_failing 0 2 world_configured)) = devices world_configured \<and>
   stores (snd (Device_Config libusb_failing 0 2 world_configured)) = [] \<and>
   fst (Device_Config libusb_ok 0 2 world_configured) = Returns (Inr 1) \<and>
   devices (snd (Device_Config libusb_ok 0 2 world_configured)) =
     [example_device\<lparr>Device.claimed := Some 1\<rparr>] \<and>
   stores (snd (Device_Config libusb_ok 0 2 world_configured)) =
     [([Call (NSetConfig (Some 7) 2), Lock (DeviceMu 0)], StoreDeviceClaimed 0 (Some 1))]"
  using Device_Config_spec
      [where w = world_configured and d = 0 and dv = "example_device\<lparr>Device.claimed := Some 0\<rparr>"
         and desc = example_descriptor and L = libusb_ok and cfgNum = 3]
    Device_Config_spec
      [where w = world_configured and d = 0 and dv = "example_device\<lparr>Device.claimed := Some 0\<rparr>"
         and desc = example_descriptor and L = libusb_failing and cfgNum = 2]
    Device_Config_spec
      [where w = world_configured and d = 0 and dv = "example_device\<lparr>Device.claimed := Some 0\<rparr>"
         and desc = example_descriptor and L = libusb_ok and cfgNum = 2]
  by (simp add: example_defs deref_def split: prod.splits)

section \<open>Device.Close\<close>

text \<open>
  Claim C3. Device.Close returns the already-closed error, and changes nothing, when the
  handle is gone. With the handle present it succeeds exactly when no Config is claimed: with
  a claimed Config it returns the busy error, makes no native call and changes no Device;
  with none it makes the native close call on the handle and sets the handle to nil, after
  which a second Close returns the already-closed error.
\<close>

theorem Device_Close_spec:
  assumes "deref (devices w) d = Some dv"
    and "\<forall>c. Device.claimed dv = Some c \<longrightarrow> deref (configs w) c \<noteq> None"
  shows "(case Device_Close L d w of (res, w') \<Rightarrow>
           (res = Returns None \<longleftrightarrow> handle dv \<noteq> None \<and> Device.claimed dv = None) \<and>
           (handle dv \<noteq> None \<longrightarrow> (res = Returns None \<longleftrightarrow> Device.claimed dv = None)) \<and>
           configs w' = configs w \<and>
           (if handle dv = None then
              res = Returns (Some (DoubleClose d)) \<and> w' = w
            else if Device.claimed dv \<noteq> None then
              (\<exists>n. res = Returns (Some (DeviceHasOpenConfig d n))) \<and>
              devices w' = devices w \<and>
              native_calls (events w') = native_calls (events w)
            else
              res = Returns None \<and>
              devices w' = list_update (devices w) d (dv\<lparr>handle := None\<rparr>) \<and>
              native_calls (events w') = native_calls (events w) @ [NClose (handle dv)] \<and>
              Device_Close L d w' = (Returns (Some (DoubleClose d)), w')))"
  using assms
  by (auto simp add: Device_Close_def Let_def emit_simps native_calls_append deref_def
      split: option.splits if_splits)

theorem Device_Close_spec_witness:
  "deref (devices world_open) 0 = Some example_device \<and>
   deref (devices world_configured) 0 = Some (example_device\<lparr>Device.claimed := Some 0\<rparr>) \<and>
   Device.claimed (example_device\<lparr>Device.claimed := Some 0\<rparr>) = Some 0 \<and>
   deref (configs world_configured) 0 = Some example_config \<and>
   fst (Device_Close libusb_ok 0 world_configured) = Returns (Some (DeviceHasOpenConfig 0 2)) \<and>
   fst (Device_Close libusb_ok 0 world_open) = Returns None \<and>
   devices (snd (Device_Close libusb_ok 0 world_open)) = [example_device\<lparr>handle := None\<rparr>] \<and>
   native_calls (events (snd (Device_Close libusb_ok 0 world_open))) = [NClose (Some 7)] \<and>
   fst (Device_Close libusb_ok 0 (snd (Device_Close libusb_ok 0 world_open))) =
     Returns (Some (DoubleClose 0))"
  using Device_Close_spec [where w = world_open and d = 0 and dv = example_device and L = libusb_ok]
    Device_Close_spec
      [where w = world_configured and d = 0
         and dv = "example_device\<lparr>Device.claimed := Some 0\<rparr>" and L = libusb_ok]
  by (simp add: example_defs deref_def Device_Close_def Let_def emit_def split: prod.splits)

section \<open>Operations on a closed device\<close>

lemma Device_Close_success:
  assumes "Device_Close L d w = (Returns None, w1)"
  shows "\<exists>dv. deref (devices w1) d = Some dv \<and> handle dv = None \<and> Device.claimed dv = None"
  using assms
  by (auto simp add: Device_Close_def Let_def emit_simps deref_def
      split: option.splits if_splits)

lemma GetStringDescriptor_passes_handle:
  "deref (devices w) d = Some dv \<Longrightarrow>
   Device_GetStringDescriptor L d i w =
     (Returns (libusb_getStringDesc L (events w) (handle dv) i),
      emit (Call (NGetStringDesc (handle dv) i)) w)"
  by (simp add: Device_GetStringDescriptor_def)

lemma SetAutoDetach_passes_handle:
  "deref (devices w) d = Some dv \<Longrightarrow>
   Device_SetAutoDetach L d b w =
     (Returns (libusb_setAutoDetach L (events w) (handle dv) (if b then 1 else 0)),
      emit (Call (NSetAutoDetach (handle dv) (if b then 1 else 0))) w)"
  by (simp add: Device_SetAutoDetach_def)

lemma ActiveConfig_passes_handle:
  "deref (devices w) d = Some dv \<Longrightarrow>
   Device_ActiveConfig L d w =
     (Returns (uint (fst (libusb_getConfig L (events w) (handle dv))),
               snd (libusb_getConfig L (events w) (handle dv))),
      emit (Call (NGetConfig (handle dv))) w)"
  by (simp add: Device_ActiveConfig_def split: prod.splits)

lemma Reset_passes_handle:
  "deref (devices w) d = Some dv \<Longrightarrow> Device.claimed dv = None \<Longrightarrow>
   fst (Device_Reset L d w) =
     Returns (map_option NativeError (libusb_reset L (events w @ [Lock (DeviceMu d)]) (handle dv))) \<and>
   native_calls (events (snd (Device_Reset L d w))) = native_calls (events w) @ [NReset (handle dv)]"
  by (simp add: Device_Reset_def Let_def emit_simps native_calls_append)

lemma Config_passes_handle:
  "deref (devices w) d = Some dv \<Longrightarrow> Descriptor dv = Some desc \<Longrightarrow>
   find (\<lambda>info. Config info = cfgNum) (Configs desc) = Some info \<Longrightarrow>
   native_calls (events (snd (Device_Config L d cfgNum w))) =
     native_calls (events w) @ [NSetConfig (handle dv) (word_of_int cfgNum)]"
  by (simp add: Device_Config_def Let_def emit_simps native_calls_append scan_configs_find
      split: option.splits)

lemma Config_never_DoubleClose:
  "fst (Device_Config L d cfgNum w) \<noteq> Returns (Inl (DoubleClose d'))"
  by (simp add: Device_Config_def Let_def split: option.splits prod.splits)

lemma Reset_never_DoubleClose:
  "fst (Device_Reset L d w) \<noteq> Returns (Some (DoubleClose d'))"
  by (simp add: Device_Reset_def Let_def split: option.splits)

lemma Control_passes_handle:
  "deref (configs w) c = Some cf \<Longrightarrow> deref (devices w) (dev cf) = Some dv \<Longrightarrow>
   Config_Control L c rt rq v i data w =
     (Returns (libusb_control L (events w) (handle dv) (ControlTimeout cf) rt rq v i data),
      emit (Call (NControl (handle dv) (ControlTimeout cf) rt rq v i data)) w)"
  by (simp add: Config_Control_def)

text \<open>
  Claim C10. In the world \<open>w1\<close> that a successful Device.Close leaves, Close itself returns
  the already-closed error, and no other operation tests the handle: GetStringDescriptor,
  SetAutoDetach, ActiveConfig and Reset on the device, and Control on every Config of the
  device, make their native call with the nil handle, and so does Config once it has found
  \<open>cfgNum\<close> in the descriptor; neither Reset nor Config returns the already-closed error
  (the other four can only return what the native layer returns).
\<close>

theorem closed_handle_unchecked:
  assumes "Device_Close L d w = (Returns None, w1)"
  shows "Device_Close L d w1 = (Returns (Some (DoubleClose d)), w1) \<and>
    Device_GetStringDescriptor L d i w1 =
      (Returns (libusb_getStringDesc L (events w1) None i),
       emit (Call (NGetStringDesc None i)) w1) \<and>
    Device_SetAutoDetach L d b w1 =
      (Returns (libusb_setAutoDetach L (events w1) None (if b then 1 else 0)),
       emit (Call (NSetAutoDetach None (if b then 1 else 0))) w1) \<and>
    Device_ActiveConfig L d w1 =
      (Returns (uint (fst (libusb_getConfig L (events w1) None)),
                snd (libusb_getConfig L (events w1) None)),
       emit (Call (NGetConfig None)) w1) \<and>
    fst (Device_Reset L d w1) =
      Returns (map_option NativeError (libusb_reset L (events w1 @ [Lock (DeviceMu d)]) None)) \<and>
    native_calls (events (snd (Device_Reset L d w1))) = native_calls (events w1) @ [NReset None] \<and>
    fst (Device_Reset L d w1) \<noteq> Returns (Some (DoubleClose d)) \<and>
    fst (Device_Config L d cfgNum w1) \<noteq> Returns (Inl (DoubleClose d)) \<and>
    (\<forall>dv desc info. deref (devices w1) d = Some dv \<and> Descriptor dv = Some desc \<and>
        find (\<lambda>info. Config info = cfgNum) (Configs desc) = Some info \<longrightarrow>
        native_calls (events (snd (Device_Config L d cfgNum w1))) =
          native_calls (events w1) @ [NSetConfig None (word_of_int cfgNum)]) \<and>
    (\<forall>c cf. deref (configs w1) c = Some cf \<and> dev cf = d \<longrightarrow>
        Config_Control L c rt rq v ix data w1 =
          (Returns (libusb_control L (events w1) None (ControlTimeout cf) rt rq v ix data),
           emit (Call (NControl None (ControlTimeout cf) rt rq v ix data)) w1))"
proof -
  from Device_Close_success [OF assms] obtain dv where
    dv: "deref (devices w1) d = Some dv" and h: "handle dv = None" and
    cl: "Device.claimed dv = None"
    by blast
  have close: "Device_Close L d w1 = (Returns (Some (DoubleClose d)), w1)"
    using dv h by (simp add: Device_Close_def)
  have cfg: "\<forall>dv' desc info. deref (devices w1) d = Some dv' \<and> Descriptor dv' = Some desc \<and>
        find (\<lambda>info. Config info = cfgNum) (Configs desc) = Some info \<longrightarrow>
        native_calls (events (snd (Device_Config L d cfgNum w1))) =
          native_calls (events w1) @ [NSetConfig None (word_of_int cfgNum)]"
    using Config_passes_handle [of w1 d dv _ cfgNum _ L] dv h by auto
  have ctl: "\<forall>c cf. deref (configs w1) c = Some cf \<and> dev cf = d \<longrightarrow>
        Config_Control L c rt rq v ix data w1 =
          (Returns (libusb_control L (events w1) None (ControlTimeout cf) rt rq v ix data),
           emit (Call (NControl None (ControlTimeout cf) rt rq v ix data)) w1)"
    using Control_passes_handle [of w1 _ _ dv L rt rq v ix data] dv h by auto
  show ?thesis
    using close GetStringDescriptor_passes_handle [OF dv, of L i]
      SetAutoDetach_passes_handle [OF dv, of L b] ActiveConfig_passes_handle [OF dv, of L]
      Reset_passes_handle [OF dv cl, of L] Config_never_DoubleClose [of L d cfgNum w1 d]
      Reset_never_DoubleClose [of L d w1 d] cfg ctl h
    by simp
qed

theorem closed_handle_unchecked_witness:
  "Device_Close libusb_ok 0 world_open =
     (Returns None, snd (Device_Close libusb_ok 0 world_open)) \<and>
   fst (Device_GetStringDescriptor libusb_ok 0 1 (snd (Device_Close libusb_ok 0 world_open))) =
     Returns (''usb'', None) \<and>
   native_calls (events (snd (Device_Reset libusb_ok 0 (snd (Device_Close libusb_ok 0 world_open))))) =
     [NClose (Some 7), NReset None] \<and>
   native_calls (events (snd (Device_Config libusb_ok 0 2 (snd (Device_Close libusb_ok 0 world_open))))) =
     [NClose (Some 7), NSetConfig None 2]"
  using closed_handle_unchecked
      [where L = libusb_ok and d = 0 and w = world_open
         and ?w1.0 = "snd (Device_Close libusb_ok 0 world_open)" and i = 1 and cfgNum = 2]
  by (simp add: example_defs deref_def Device_Close_def Device_Reset_def Device_Config_def
      Device_GetStringDescriptor_def Let_def emit_def record_store_def new_Config_def)

section \<open>Config.Close\<close>

text \<open>
  Claim C1. Config.Close succeeds exactly when the set of claimed interfaces is empty at the
  call. On success it sets the owning Device's claimed reference to nil. On failure it returns
  the busy error, which lists every claimed interface number, and leaves every Config and
  every Device as it was. It never calls the native layer. This holds in every state, so
  after any sequence of claims and releases.
\<close>

theorem Config_Close_spec:
  assumes "deref (configs w) c = Some cf" and "deref (devices w) (dev cf) = Some dv"
  shows "(case Config_Close c w of (res, w') \<Rightarrow>
           (res = Returns None \<longleftrightarrow> claimedInterfaces cf = {}) \<and>
           configs w' = configs w \<and>
           native_calls (events w') = native_calls (events w) \<and>
           (if claimedInterfaces cf = {}
            then res = Returns None \<and>
                 devices w' = list_update (devices w) (dev cf) (dv\<lparr>Device.claimed := None\<rparr>)
            else (\<exists>ifs. res = Returns (Some (InterfacesStillOpen c ifs)) \<and>
                        set ifs = claimedInterfaces cf) \<and>
                 devices w' = devices w))"
  using assms
  by (simp add: Config_Close_def Let_def emit_simps native_calls_append collect_keys_eq
      claimedInterfaces_def)

theorem Config_Close_spec_witness:
  "deref (configs world_claimed) 0 = Some (example_config\<lparr>Config.claimed := [(0, True), (2, True)]\<rparr>) \<and>
   deref (devices world_claimed) 0 = Some (example_device\<lparr>Device.claimed := Some 0\<rparr>) \<and>
   fst (Config_Close 0 world_claimed) = Returns (Some (InterfacesStillOpen 0 [0, 2])) \<and>
   devices (snd (Config_Close 0 world_claimed)) = devices world_claimed \<and>
   fst (Config_Close 0 world_configured) = Returns None \<and>
   devices (snd (Config_Close 0 world_configured)) = [example_device]"
  using Config_Close_spec
      [where w = world_claimed and c = 0
         and cf = "example_config\<lparr>Config.claimed := [(0, True), (2, True)]\<rparr>"
         and dv = "example_device\<lparr>Device.claimed := Some 0\<rparr>"]
    Config_Close_spec
      [where w = world_configured and c = 0 and cf = example_config
         and dv = "example_device\<lparr>Device.claimed := Some 0\<rparr>"]
  by (simp add: deref_def world_claimed_def world_configured_def example_config_def
      example_device_def claimedInterfaces_def Config_Close_def Let_def emit_def record_store_def)

section \<open>Config.Interface\<close>

text \<open>
  Claim C5. Config.Interface with \<open>intf\<close> outside the interface table, or with
  \<open>alt\<close> outside the alternate-setting table of that interface, returns the out-of-range
  error, whose last argument is the number of elements of the table concerned, and leaves the
  world as it was: no native call is made.
\<close>

theorem Config_Interface_out_of_range:
  assumes "deref (configs w) c = Some cf"
  shows "((intf < 0 \<or> int (length (Interfaces (Info cf))) \<le> intf) \<longrightarrow>
            Config_Interface L c intf alt w =
              (Returns (Inl (InterfaceNotFound intf c (length (Interfaces (Info cf))))), w)) \<and>
         (0 \<le> intf \<and> intf < int (length (Interfaces (Info cf))) \<and>
          (alt < 0 \<or> int (length (AltSettings (Interfaces (Info cf) ! nat intf))) \<le> alt) \<longrightarrow>
            Config_Interface L c intf alt w =
              (Returns (Inl (AltSettingNotFound (Interfaces (Info cf) ! nat intf) alt
                 (length (AltSettings (Interfaces (Info cf) ! nat intf))))), w))"
  using assms by (auto simp add: Config_Interface_def Let_def)

theorem Config_Interface_out_of_range_witness:
  "deref (configs world_configured) 0 = Some example_config \<and>
   Config_Interface libusb_ok 0 5 0 world_configured =
     (Returns (Inl (InterfaceNotFound 5 0 3)), world_configured) \<and>
   Config_Interface libusb_ok 0 1 1 world_configured =
     (Returns (Inl (AltSettingNotFound \<lparr>AltSettings = [20]\<rparr> 1 1)), world_configured)"
  using Config_Interface_out_of_range
      [where w = world_configured and c = 0 and cf = example_config and intf = 5 and alt = 0
         and L = libusb_ok]
    Config_Interface_out_of_range
      [where w = world_configured and c = 0 and cf = example_config and intf = 1 and alt = 1
         and L = libusb_ok]
  by (simp add: deref_def world_configured_def example_config_def example_info_def)

text \<open>
  Claim C2, as amended. For in-range \<open>intf\<close> and \<open>alt\<close>, when the native claim succeeds
  and the native setAltSetting fails, Config.Interface issues the native release for that
  interface after the two calls and before it returns, returns the setAltSetting failure and
  no Interface, and leaves every Config as it was, so \<open>intf\<close> is not added to the claimed
  interfaces. The interface is unclaimed at the native layer afterwards exactly when that
  release succeeds: when it fails the native claim stays.
\<close>

theorem Config_Interface_rollback:
  assumes "deref (configs w) c = Some cf" and "deref (devices w) (dev cf) = Some dv"
    and "0 \<le> intf" and "intf < int (length (Interfaces (Info cf)))"
    and "0 \<le> alt" and "alt < int (length (AltSettings (Interfaces (Info cf) ! nat intf)))"
    and "libusb_claim L (events w) (handle dv) (word_of_int intf) = None"
    and "libusb_setAlt L (events w @ [Call (NClaim (handle dv) (word_of_int intf))])
           (handle dv) (word_of_int intf) (word_of_int alt) = Some err"
  shows "(case Config_Interface L c intf alt w of (res, w') \<Rightarrow>
           res = Returns (Inl (SetAltFailed alt intf c err)) \<and>
           events w' = events w @
             [Call (NClaim (handle dv) (word_of_int intf)),
              Call (NSetAlt (handle dv) (word_of_int intf) (word_of_int alt)),
              Call (NRelease (handle dv) (word_of_int intf))] \<and>
           configs w' = configs w \<and> devices w' = devices w \<and>
           map_option claimedInterfaces (deref (configs w') c) = Some (claimedInterfaces cf) \<and>
           ((handle dv, word_of_int intf) \<in> set (native_held L (events w')) \<longleftrightarrow>
              libusb_release L
                (events w @ [Call (NClaim (handle dv) (word_of_int intf)),
                             Call (NSetAlt (handle dv) (word_of_int intf) (word_of_int alt))])
                (handle dv) (word_of_int intf) \<noteq> None))"
  using assms by (simp add: Config_Interface_def Let_def emit_simps native_held_snoc3)

theorem Config_Interface_rollback_witness:
  "deref (configs world_configured) 0 = Some example_config \<and>
   deref (devices world_configured) (dev example_config) =
     Some (example_device\<lparr>Device.claimed := Some 0\<rparr>) \<and>
   libusb_claim libusb_bad_alt [] (Some 7) 0 = None \<and>
   libusb_setAlt libusb_bad_alt [Call (NClaim (Some 7) 0)] (Some 7) 0 1 = Some 5 \<and>
   fst (Config_Interface libusb_bad_alt 0 0 1 world_configured) =
     Returns (Inl (SetAltFailed 1 0 0 5)) \<and>
   events (snd (Config_Interface libusb_bad_alt 0 0 1 world_configured)) =
     [Call (NClaim (Some 7) 0), Call (NSetAlt (Some 7) 0 1), Call (NRelease (Some 7) 0)] \<and>
   configs (snd (Config_Interface libusb_bad_alt 0 0 1 world_configured)) = [example_config] \<and>
   (Some 7, 0) \<notin> set (native_held libusb_bad_alt
      (events (snd (Config_Interface libusb_bad_alt 0 0 1 world_configured))))"
  using Config_Interface_rollback
      [where w = world_configured and c = 0 and cf = example_config
         and dv = "example_device\<lparr>Device.claimed := Some 0\<rparr>" and intf = 0 and alt = 1
         and L = libusb_bad_alt and err = 5]
  by (simp add: deref_def world_configured_def example_config_def example_info_def
      example_device_def libusb_bad_alt_def libusb_ok_def Config_Interface_def Let_def emit_def
      native_held_def)

text \<open>
  Claim C2 as written says that the claim is never left half-established. With a native layer
  whose setAltSetting and release both fail, Config.Interface reports the failure, interface 0
  is not among the claimed interfaces of the Config, and interface 0 is still claimed at the
  native layer.
\<close>

theorem Config_Interface_rollback_counterexample:
  "fst (Config_Interface libusb_failing 0 0 1 world_configured) =
     Returns (Inl (SetAltFailed 1 0 0 5)) \<and>
   map_option claimedInterfaces
     (deref (configs (snd (Config_Interface libusb_failing 0 0 1 world_configured))) 0) = Some {} \<and>
   (Some 7, 0) \<in> set (native_held libusb_failing
      (events (snd (Config_Interface libusb_failing 0 0 1 world_configured))))"
  by (simp add: example_defs deref_def Config_Interface_def Let_def emit_def
      claimedInterfaces_def native_held_def)

text \<open>
  Claim C9. On the rollback path the result of the native release is dropped: when
  setAltSetting fails and the release fails too, the caller gets the setAltSetting error alone,
  and result and world are the same as with a native layer whose release succeeds.
\<close>

theorem rollback_release_error_dropped:
  assumes "deref (configs w) c = Some cf" and "deref (devices w) (dev cf) = Some dv"
    and "0 \<le> intf" and "intf < int (length (Interfaces (Info cf)))"
    and "0 \<le> alt" and "alt < int (length (AltSettings (Interfaces (Info cf) ! nat intf)))"
    and "libusb_claim L (events w) (handle dv) (word_of_int intf) = None"
    and "libusb_setAlt L (events w @ [Call (NClaim (handle dv) (word_of_int intf))])
           (handle dv) (word_of_int intf) (word_of_int alt) = Some err"
    and "libusb_release L
           (events w @ [Call (NClaim (handle dv) (word_of_int intf)),
                        Call (NSetAlt (handle dv) (word_of_int intf) (word_of_int alt))])
           (handle dv) (word_of_int intf) = Some err2"
  shows "fst (Config_Interface L c intf alt w) = Returns (Inl (SetAltFailed alt intf c err)) \<and>
         Config_Interface L c intf alt w =
           Config_Interface (L\<lparr>libusb_release := (\<lambda>es h i. None)\<rparr>) c intf alt w"
  using assms by (simp add: Config_Interface_def Let_def emit_simps)

theorem rollback_release_error_dropped_witness:
  "libusb_release libusb_failing [Call (NClaim (Some 7) 0), Call (NSetAlt (Some 7) 0 1)]
     (Some 7) 0 = Some 9 \<and>
   fst (Config_Interface libusb_failing 0 0 1 world_configured) =
     Returns (Inl (SetAltFailed 1 0 0 5))"
  using rollback_release_error_dropped
      [where w = world_configured and c = 0 and cf = example_config
         and dv = "example_device\<lparr>Device.claimed := Some 0\<rparr>" and intf = 0 and alt = 1
         and L = libusb_failing and err = 5 and ?err2.0 = 9]
  by (simp add: deref_def world_configured_def example_config_def example_info_def
      example_device_def libusb_failing_def libusb_ok_def Config_Interface_def Let_def emit_def)

section \<open>Lock order\<close>

lemma Config_Close_emitted:
  "emitted L (OpConfigClose c) w = [] \<or>
   emitted L (OpConfigClose c) w = [Lock (ConfigMu c), Unlock (ConfigMu c)] \<or>
   (\<exists>d. emitted L (OpConfigClose c) w =
      [Lock (ConfigMu c), Lock (DeviceMu d), Unlock (DeviceMu d), Unlock (ConfigMu c)])"
  by (simp add: emitted_def Config_Close_def Let_def emit_simps split: option.splits)

lemma events_grow: "events (run L op w) = events w @ emitted L op w"
  by (cases op)
    (simp_all add: emitted_def Device_Reset_def Device_ActiveConfig_def Device_Config_def
      Device_Close_def Device_GetStringDescriptor_def Device_SetAutoDetach_def Config_Close_def
      Config_Control_def Config_Interface_def Let_def emit_simps
      split: option.splits prod.splits)

lemma lock_order_ok_run: "lock_order_ok [] (emitted L op w)"
  by (cases op)
    (simp_all add: emitted_def Device_Reset_def Device_ActiveConfig_def Device_Config_def
      Device_Close_def Device_GetStringDescriptor_def Device_SetAutoDetach_def Config_Close_def
      Config_Control_def Config_Interface_def Let_def emit_simps
      split: option.splits prod.splits)

lemma max_held_run: "1 < max_held [] (emitted L op w) \<Longrightarrow> \<exists>c. op = OpConfigClose c"
  by (cases op)
    (simp_all add: emitted_def Device_Reset_def Device_ActiveConfig_def Device_Config_def
      Device_Close_def Device_GetStringDescriptor_def Device_SetAutoDetach_def
      Config_Control_def Config_Interface_def Let_def emit_simps
      split: option.splits prod.splits if_splits)

text \<open>
  Claim C6. Every operation of Device and Config only appends events; in what it appends no
  config mutex is locked while a device mutex is held; an operation that holds two mutexes at
  one time is Config.Close; and Config.Close locks its config mutex first and a device mutex
  second, giving them back in reverse order (or stops after the config mutex, or panics before
  any lock).
\<close>

theorem mutex_discipline:
  "events (run L op w) = events w @ emitted L op w \<and>
   lock_order_ok [] (emitted L op w) \<and>
   (1 < max_held [] (emitted L op w) \<longrightarrow> (\<exists>c. op = OpConfigClose c)) \<and>
   (\<forall>c. op = OpConfigClose c \<longrightarrow>
      emitted L op w = [] \<or>
      emitted L op w = [Lock (ConfigMu c), Unlock (ConfigMu c)] \<or>
      (\<exists>d. emitted L op w =
         [Lock (ConfigMu c), Lock (DeviceMu d), Unlock (DeviceMu d), Unlock (ConfigMu c)]))"
  using events_grow [of L op w] lock_order_ok_run [of L op w] max_held_run [of L op w]
    Config_Close_emitted [of L _ w]
  by blast

theorem mutex_discipline_witness:
  "emitted libusb_ok (OpConfigClose 0) world_configured =
     [Lock (ConfigMu 0), Lock (DeviceMu 0), Unlock (DeviceMu 0), Unlock (ConfigMu 0)] \<and>
   max_held [] (emitted libusb_ok (OpConfigClose 0) world_configured) = 2 \<and>
   lock_order_ok [] (emitted libusb_ok (OpConfigClose 0) world_configured) \<and>
   emitted libusb_ok (OpReset 0) world_open =
     [Lock (DeviceMu 0), Call (NReset (Some 7)), Unlock (DeviceMu 0)] \<and>
   max_held [] (emitted libusb_ok (OpReset 0) world_open) = 1"
  using mutex_discipline [of libusb_ok "OpConfigClose 0" world_configured]
    mutex_discipline [of libusb_ok "OpReset 0" world_open]
  by (simp add: example_defs emitted_def deref_def Config_Close_def Device_Reset_def Let_def
      emit_def record_store_def)

end
